theory Spec2Isabelle
  imports Main "HOL-Library.Sublist"
begin

section \<open>reverseProxy.ts: the port-addressed reverse proxy\<close>

text \<open>
  JavaScript numbers are IEEE doubles. \<open>Number(match[1])\<close> on a string of decimal digits is
  the exact integer as long as the value does not exceed \<open>2^53\<close>; above that the double is
  a rounded value, which the model does not compute and represents by \<open>Rounded\<close>.
\<close>

datatype js_number = Exact nat | Rounded

definition isDigit :: "char \<Rightarrow> bool" where
  "isDigit c = (c \<in> set ''0123456789'')"

definition digit_val :: "char \<Rightarrow> nat" where
  "digit_val c = of_char c - 48"

definition digits_val :: "string \<Rightarrow> nat" where
  "digits_val ds = foldl (\<lambda>acc c. 10 * acc + digit_val c) 0 ds"

definition js_Number :: "string \<Rightarrow> js_number" where
  "js_Number ds = (if digits_val ds \<le> 2 ^ 53 then Exact (digits_val ds) else Rounded)"

text \<open>
  \<open>const regex = new RegExp('\/_proxy\/([0-9]+)($|\/)')\<close>.
  \<open>match_here s\<close> is the match of the pattern anchored at the start of \<open>s\<close>: the digits
  of group 1, the text of group 2 and the text after the match. The greedy \<open>[0-9]+\<close> takes
  the whole run of digits; giving digits back never helps, because the character after a
  shorter run is a digit, which is neither the end of input nor a slash.
\<close>

definition match_here :: "string \<Rightarrow> (string \<times> string \<times> string) option" where
  "match_here s =
     (if prefix ''/_proxy/'' s then
        (let t = drop 8 s; ds = takeWhile isDigit t; r = dropWhile isDigit t in
           if ds = [] then None
           else (case r of
                   [] \<Rightarrow> Some (ds, [], [])
                 | c # r' \<Rightarrow> if c = CHR ''/'' then Some (ds, [c], r') else None))
      else None)"

text \<open>
  \<open>regex.exec\<close> without the sticky or global flag: the leftmost position at which the
  pattern matches. The result is the text before the match, group 1, group 2 and the text
  after the match.
\<close>

fun regex_exec :: "string \<Rightarrow> (string \<times> string \<times> string \<times> string) option" where
  "regex_exec [] = None"
| "regex_exec (c # cs) =
     (case match_here (c # cs) of
        Some (ds, sep, post) \<Rightarrow> Some ([], ds, sep, post)
      | None \<Rightarrow>
          (case regex_exec cs of
             None \<Rightarrow> None
           | Some (pre, ds, sep, post) \<Rightarrow> Some (c # pre, ds, sep, post)))"

definition getRequestPort :: "string \<Rightarrow> js_number" where
  "getRequestPort path =
     (if path \<noteq> [] then
        (case regex_exec path of
           Some (pre, ds, sep, post) \<Rightarrow> js_Number ds
         | None \<Rightarrow> Exact 0)
      else Exact 0)"

text \<open>\<open>request.url.replace(regex, '')\<close>: the first match is deleted, group 2 included.\<close>

definition replace_regex :: "string \<Rightarrow> string" where
  "replace_regex u =
     (case regex_exec u of
        Some (pre, ds, sep, post) \<Rightarrow> pre @ post
      | None \<Rightarrow> u)"

section \<open>jupyter.ts: the supervisor of the backend process\<close>

text \<open>
  The object stored in the module variable \<open>jupyterServer\<close>. \<open>childProcess\<close> is the process
  id of the spawned child, \<open>proxy\<close> the target host and port of its forwarding proxy. Both
  fields are assigned in \<open>createJupyterServer\<close> before the object can reach the module
  variable, so the model has them always present.
\<close>

record JupyterServer =
  port :: nat
  childProcess :: nat
  proxy :: "string \<times> nat"

text \<open>
  What a request handler did with a request. \<open>HandledBySocketIo\<close>: the handler returned
  without touching the response. \<open>ProxyWeb port url\<close>: \<open>proxy.web\<close> of reverseProxy.ts
  with target \<open>'http://localhost:' + port\<close> and the rewritten \<open>request.url\<close>.
  \<open>JupyterProxyWeb target\<close>: \<open>jupyterServer.proxy.web\<close>. \<open>Responded status body\<close>:
  \<open>response.statusCode = status; response.end()\<close>.
\<close>

datatype outcome =
    HandledBySocketIo
  | ProxyWeb js_number string
  | JupyterProxyWeb "string \<times> nat"
  | Responded nat string

definition jupyter_handleRequest :: "JupyterServer option \<Rightarrow> outcome" where
  "jupyter_handleRequest jupyterServer =
     (case jupyterServer of
        None \<Rightarrow> Responded 500 []
      | Some server \<Rightarrow> JupyterProxyWeb (proxy server))"

section \<open>server.ts: the request router\<close>

text \<open>
  The part of an incoming request the router reads. \<open>pathname\<close> is
  \<open>url.parse(request.url || '', true).pathname || ''\<close>, computed by Node's url module;
  \<open>localPort\<close> is \<open>request.socket.localPort\<close>.
\<close>

record request =
  url :: string
  pathname :: string
  localPort :: nat

definition reverseProxy_handleRequest :: "request \<Rightarrow> js_number \<Rightarrow> outcome" where
  "reverseProxy_handleRequest req p = ProxyWeb p (replace_regex (url req))"

definition handleRequest :: "JupyterServer option \<Rightarrow> string \<Rightarrow> outcome" where
  "handleRequest jupyterServer requestPath =
     (if prefix ''/api'' requestPath \<or> prefix ''/nbextensions'' requestPath \<or>
         prefix ''/files'' requestPath \<or> prefix ''/static'' requestPath
      then jupyter_handleRequest jupyterServer
      else Responded 404 [])"

text \<open>\<open>SocketIoToPty.isPathProxied\<close>; a bridge is represented by its \<open>path\<close> field.\<close>

definition isPathProxied :: "string \<Rightarrow> string \<Rightarrow> bool" where
  "isPathProxied this_path path = prefix (this_path @ ''/'') path"

definition isSocketIoPath :: "string \<Rightarrow> bool" where
  "isSocketIoPath path = prefix ''/socket.io/'' path"

text \<open>
  \<open>proxyPort && proxyPort !== request.socket.localPort\<close>. A rounded value is above
  \<open>2^53\<close>: it is truthy and differs from every port.
\<close>

fun usable_port :: "js_number \<Rightarrow> nat \<Rightarrow> bool" where
  "usable_port (Exact n) lp = (n \<noteq> 0 \<and> n \<noteq> lp)"
| "usable_port Rounded lp = True"

text \<open>
  \<open>uncheckedRequestHandler\<close>, with the module's list \<open>socketIoHandlers\<close> and the
  supervisor's \<open>jupyterServer\<close> variable as arguments. The call of
  \<open>logging.logRequest\<close> leaves the dispatch untouched and is not part of the outcome.
\<close>

definition uncheckedRequestHandler ::
  "string list \<Rightarrow> JupyterServer option \<Rightarrow> request \<Rightarrow> outcome" where
  "uncheckedRequestHandler socketIoHandlers jupyterServer req =
     (let urlpath = pathname req in
      if list_ex (\<lambda>handler. isPathProxied handler urlpath) socketIoHandlers
      then HandledBySocketIo
      else
        (let proxyPort = getRequestPort urlpath in
         if isSocketIoPath urlpath then HandledBySocketIo
         else if usable_port proxyPort (localPort req)
         then reverseProxy_handleRequest req proxyPort
         else handleRequest jupyterServer urlpath))"

text \<open>The list \<open>run\<close> builds: the terminal bridge at \<open>/tty\<close> when \<open>settings.terminal\<close> is set.\<close>

definition run_socketIoHandlers :: "bool \<Rightarrow> string list" where
  "run_socketIoHandlers terminal = (if terminal then [''/tty''] else [])"


section \<open>The http-proxy library: the request that proxy.web sends\<close>






section \<open>jupyter.ts: life cycle of the backend process\<close>

datatype js_exception = TypeError | SyntaxError | Error

text \<open>The fields of \<open>AppSettings\<close> that jupyter.ts and sockets.ts read.\<close>

record AppSettings =
  nextJupyterPort :: nat
  jupyterArgs :: "string list"
  kernelManagerProxyPort :: nat
  kernelManagerProxyHost :: string





text \<open>
  The state of the module: the variable \<open>jupyterServer\<close> (\<open>None\<close> is \<open>null\<close>), and
  the object \<open>server\<close> that the callbacks registered by \<open>createJupyterServer\<close> hold.
\<close>

record jupyter_state =
  jupyterServer :: "JupyterServer option"
  launched :: "JupyterServer option"






text \<open>
  \<open>close\<close>. \<open>kill pid signal\<close> is what \<open>jupyterProcess.kill(signal)\<close> does in the
  environment: \<open>Some e\<close> when it throws \<open>e\<close>. The first statement reads
  \<open>jupyterServer.childProcess\<close> outside the \<open>try\<close> block, which throws a \<open>TypeError\<close>
  when \<open>jupyterServer\<close> is \<open>null\<close>. The result is the exception that leaves \<open>close\<close>, or
  the new value of \<open>jupyterServer\<close> with the calls of \<open>kill\<close> that were made.
\<close>

definition close ::
  "(nat \<Rightarrow> string \<Rightarrow> js_exception option) \<Rightarrow> JupyterServer option \<Rightarrow>
     js_exception + (JupyterServer option \<times> (nat \<times> string) list)" where
  "close kill js =
     (case js of
        None \<Rightarrow> Inl TypeError
      | Some server \<Rightarrow>
          (let jupyterProcess = childProcess server in
           case kill jupyterProcess ''SIGHUP'' of
             Some e \<Rightarrow> Inr (None, [(jupyterProcess, ''SIGHUP'')])
           | None \<Rightarrow> Inr (None, [(jupyterProcess, ''SIGHUP'')])))"

section \<open>jupyter.ts: relaying the output of the backend to the logger\<close>

text \<open>
  Strings are lists of 8-bit characters, that is JavaScript strings whose code units are
  below 256. \<open>isWhiteSpace\<close> is the white space and line terminators of ECMAScript in
  that range, which \<open>String.prototype.trim\<close> removes.
\<close>

definition isWhiteSpace :: "char \<Rightarrow> bool" where
  "isWhiteSpace c = (c \<in> {CHR 0x09, CHR 0x0A, CHR 0x0B, CHR 0x0C, CHR 0x0D, CHR 0x20, CHR 0xA0})"

definition trim :: "string \<Rightarrow> string" where
  "trim s = rev (dropWhile isWhiteSpace (rev (dropWhile isWhiteSpace s)))"

text \<open>\<open>s.split(sep)\<close> for a separator of one character: never the empty list.\<close>

fun split_on :: "char \<Rightarrow> string \<Rightarrow> string list" where
  "split_on sep [] = [[]]"
| "split_on sep (c # cs) =
     (if c = sep then [] # split_on sep cs
      else (case split_on sep cs of
              [] \<Rightarrow> [[c]]
            | w # ws \<Rightarrow> (c # w) # ws))"

text \<open>\<open>s.split(sep, limit)\<close>: the first \<open>limit\<close> pieces; what follows them is dropped.\<close>

definition split_limit :: "char \<Rightarrow> nat \<Rightarrow> string \<Rightarrow> string list" where
  "split_limit sep limit s = take limit (split_on sep s)"

datatype log_level = LogError | LogWarn | LogInfo | LogDebug

text \<open>The body of the loop of \<open>pipeOutput\<close>: the calls of the logger one line causes.\<close>

definition pipe_line :: "string \<Rightarrow> (log_level \<times> string) list" where
  "pipe_line line =
     (if length (trim line) = 0 then []
      else
        (let parts = split_limit CHR ''|'' 3 line in
         if length parts \<noteq> 3 then [(LogWarn, line)]
         else
           (let level = parts ! 1; message = parts ! 2 in
            if level = ''CRITICAL'' \<or> level = ''ERROR'' then [(LogError, message)]
            else if level = ''WARNING'' then [(LogWarn, message)]
            else if level = ''INFO'' then [(LogInfo, message)]
            else [(LogDebug, message)])))"

text \<open>The \<open>data\<close> handler of \<open>pipeOutput\<close>: every line of the chunk in turn.\<close>

definition pipeOutput :: "string \<Rightarrow> (log_level \<times> string) list" where
  "pipeOutput data = concat (map pipe_line (split_on CHR 0x0A data))"

section \<open>socketio_to_pty.ts: the terminal session\<close>

definition UNACKED_HIGH_WATER :: int where
  "UNACKED_HIGH_WATER = 20"

definition UNACKED_LOW_WATER :: int where
  "UNACKED_LOW_WATER = 2"

text \<open>The mutable part of a \<open>Session\<close>; \<open>unackedCount\<close> starts at 0.\<close>

record PtySession =
  pty_id :: nat
  unackedCount :: int

definition new_PtySession :: "nat \<Rightarrow> PtySession" where
  "new_PtySession sessionCounter = \<lparr>pty_id = sessionCounter, unackedCount = 0\<rparr>"

text \<open>The fields of \<open>PtyMessage\<close>, all optional.\<close>

record PtyMessage =
  msg_data :: "string option"
  msg_cols :: "int option"
  msg_rows :: "int option"

text \<open>
  What \<open>JSON.parse(event.data)\<close> does: it throws a \<open>SyntaxError\<close> on text that is not
  JSON, and it returns \<open>null\<close> or a value whose fields are read as a \<open>PtyMessage\<close>.
\<close>

datatype json_result = JsonThrows | JsonNull | JsonValue PtyMessage

datatype pty_action =
    PtyWrite string
  | PtyResize int int
  | PtyPause
  | PtyResume
  | PtyKill
  | SocketEmitData string
  | SocketEmitExit int "int option"
  | SocketDisconnect
  | PtyLogDebug string

text \<open>JavaScript truthiness of an optional string and of an optional number.\<close>

fun truthy_string :: "string option \<Rightarrow> bool" where
  "truthy_string None = False"
| "truthy_string (Some s) = (s \<noteq> [])"

fun truthy_number :: "int option \<Rightarrow> bool" where
  "truthy_number None = False"
| "truthy_number (Some n) = (n \<noteq> 0)"

text \<open>
  The handler of the client's \<open>data\<close> event. \<open>parsed\<close> is what \<open>JSON.parse(event_data)\<close>
  does. The handler has no \<open>try\<close> block: the result is the list of actions it performed
  and the exception that leaves it, if any.
\<close>

definition socket_on_data ::
  "string \<Rightarrow> json_result \<Rightarrow> pty_action list \<times> js_exception option" where
  "socket_on_data event_data parsed =
     (case parsed of
        JsonThrows \<Rightarrow> ([PtyLogDebug event_data], Some SyntaxError)
      | JsonNull \<Rightarrow> ([PtyLogDebug event_data], Some TypeError)
      | JsonValue message \<Rightarrow>
          ([PtyLogDebug event_data]
           @ (if truthy_string (msg_data message) then [PtyWrite (the (msg_data message))] else [])
           @ (if truthy_number (msg_cols message) \<and> truthy_number (msg_rows message)
              then [PtyResize (the (msg_cols message)) (the (msg_rows message))] else []),
           None))"

text \<open>The handler of \<open>pty.onData\<close>, up to the call of \<open>socket.emit\<close>.\<close>

definition pty_onData :: "PtySession \<Rightarrow> string \<Rightarrow> PtySession \<times> pty_action list" where
  "pty_onData s d =
     (let s' = s\<lparr>unackedCount := unackedCount s + 1\<rparr> in
      (s', (if unackedCount s' > UNACKED_HIGH_WATER then [PtyPause] else [])
           @ [SocketEmitData d]))"

text \<open>The acknowledgment callback passed to \<open>socket.emit\<close>.\<close>

definition pty_ack :: "PtySession \<Rightarrow> PtySession \<times> pty_action list" where
  "pty_ack s =
     (let s' = s\<lparr>unackedCount := max 0 (unackedCount s - 1)\<rparr> in
      (s', if unackedCount s' < UNACKED_LOW_WATER then [PtyResume] else []))"

definition pty_onExit :: "int \<Rightarrow> int option \<Rightarrow> pty_action list" where
  "pty_onExit exitCode signal = [SocketEmitExit exitCode signal, SocketDisconnect]"

definition pty_close :: "pty_action list" where
  "pty_close = [SocketDisconnect, PtyKill]"

text \<open>A session driven by output chunks and acknowledgments, in any order.\<close>

datatype pty_event = Chunk string | Ack

fun pty_step :: "PtySession \<Rightarrow> pty_event \<Rightarrow> PtySession \<times> pty_action list" where
  "pty_step s (Chunk d) = pty_onData s d"
| "pty_step s Ack = pty_ack s"

fun pty_run :: "PtySession \<Rightarrow> pty_event list \<Rightarrow> PtySession \<times> pty_action list" where
  "pty_run s [] = (s, [])"
| "pty_run s (e # es) =
     (case pty_step s e of
        (s', acts) \<Rightarrow> (case pty_run s' es of (s'', acts') \<Rightarrow> (s'', acts @ acts')))"

section \<open>sockets.ts: the kernel session\<close>

text \<open>
  A \<open>Session\<close>; \<open>webSocket\<close> holds a handle of the upstream socket, \<open>None\<close> is \<open>null\<close>.
  The field \<open>socket\<close> never changes and is left out.
\<close>

record KernelSession =
  session_id :: nat
  session_url :: string
  webSocket :: "nat option"

definition new_KernelSession :: "nat \<Rightarrow> KernelSession" where
  "new_KernelSession sessionCounter =
     \<lparr>session_id = sessionCounter, session_url = [], webSocket = None\<rparr>"

text \<open>
  The payload of a client's \<open>start\<close> or \<open>stop\<close> message: none (the client sent the event
  without data, the handler's \<open>message\<close> is \<open>undefined\<close>), or an object with its \<open>url\<close>.
\<close>

datatype session_message = NoPayload | SessionMessage string

text \<open>
  The payload of a client's \<open>data\<close> message: none, a \<open>Buffer\<close>, or an object with
  \<open>channel\<close> and \<open>data\<close>.
\<close>

datatype data_message = NoData | BufferMessage string | DataMessage string string

text \<open>
  What \<open>webSocket.send(data, callback)\<close> does in the environment: it calls back without
  an error, calls back with an error, or throws.
\<close>

datatype send_outcome = SendOk | SendCallbackError | SendThrows

datatype kernel_action =
    KLog log_level string
  | WsSend nat string
  | WsClose nat
  | EmitOpen string
  | EmitClose string
  | EmitData string
  | Disconnect

definition closeWebSocket :: "KernelSession \<Rightarrow> KernelSession \<times> kernel_action list" where
  "closeWebSocket session =
     (case webSocket session of
        Some ws \<Rightarrow> (session\<lparr>webSocket := None\<rparr>, [WsClose ws])
      | None \<Rightarrow> (session, []))"

text \<open>
  A handler's result: the session, the actions performed and the exception that leaves the
  handler, if any.

  The \<open>start\<close> handler. Its first statement, outside the \<open>try\<close> block, reads
  \<open>message.url\<close> for the debug line, which throws a \<open>TypeError\<close> when the event has no
  payload. \<open>create host port session\<close> is what \<open>createWebSocket\<close> does: it returns the handle
  of the new socket, or throws (\<open>url.parse\<close> or the constructor of \<open>WebSocket\<close> on a
  malformed URL). The handlers it registers on the new socket are \<open>ws_on_open\<close> and
  \<open>ws_on_close\<close> below.
\<close>

definition on_start ::
  "AppSettings \<Rightarrow> (string \<Rightarrow> nat \<Rightarrow> KernelSession \<Rightarrow> js_exception + nat) \<Rightarrow>
     KernelSession \<Rightarrow> session_message \<Rightarrow>
     KernelSession \<times> kernel_action list \<times> js_exception option" where
  "on_start appSettings create session message =
     (case message of
        NoPayload \<Rightarrow> (session, [], Some TypeError)
      | SessionMessage message_url \<Rightarrow>
          (let p = (if kernelManagerProxyPort appSettings \<noteq> 0
                    then kernelManagerProxyPort appSettings
                    else nextJupyterPort appSettings);
               notes = KLog LogDebug ''Start in session %d with url %s'' #
                       (if kernelManagerProxyPort appSettings \<noteq> 0
                        then [KLog LogDebug ''Using kernel manager proxy port %d''] else []);
               host = (if kernelManagerProxyHost appSettings \<noteq> []
                       then kernelManagerProxyHost appSettings
                       else ''localhost'');
               session1 = session\<lparr>session_url := message_url\<rparr>
           in case create host p session1 of
                Inr ws \<Rightarrow> (session1\<lparr>webSocket := Some ws\<rparr>, notes, None)
              | Inl e \<Rightarrow>
                  (session1,
                   notes @ [KLog LogError ''Unable to create WebSocket connection to %s'',
                            Disconnect],
                   None)))"

text \<open>
  The \<open>stop\<close> handler. It has no \<open>try\<close> block, and its first statement reads
  \<open>message.url\<close> for the debug line: without a payload a \<open>TypeError\<close> leaves the handler
  before \<open>closeWebSocket\<close> is called.
\<close>

definition on_stop ::
  "KernelSession \<Rightarrow> session_message \<Rightarrow>
     KernelSession \<times> kernel_action list \<times> js_exception option" where
  "on_stop session message =
     (case message of
        NoPayload \<Rightarrow> (session, [], Some TypeError)
      | SessionMessage message_url \<Rightarrow>
          (case closeWebSocket session of
             (session', acts) \<Rightarrow>
               (session', KLog LogDebug ''Stop in session %d with url %s'' # acts, None)))"

text \<open>
  \<open>session.webSocket.send(payload, callback)\<close> after the debug line \<open>note\<close>; the callback
  logs an error it is given.
\<close>

definition send_and_log ::
  "(nat \<Rightarrow> string \<Rightarrow> send_outcome) \<Rightarrow> KernelSession \<Rightarrow> nat \<Rightarrow> string \<Rightarrow> string \<Rightarrow>
     KernelSession \<times> kernel_action list \<times> js_exception option" where
  "send_and_log send session ws note payload =
     (case send ws payload of
        SendOk \<Rightarrow> (session, [KLog LogDebug note, WsSend ws payload], None)
      | SendCallbackError \<Rightarrow>
          (session,
           [KLog LogDebug note, WsSend ws payload,
            KLog LogError ''Failed to send message to websocket''],
           None)
      | SendThrows \<Rightarrow> (session, [KLog LogDebug note, WsSend ws payload], Some Error))"

text \<open>
  The \<open>data\<close> handler. With a socket present and no payload, reading \<open>message.data\<close> for
  the debug line throws a \<open>TypeError\<close>; without a socket the message is not looked at.
\<close>

definition on_data ::
  "(nat \<Rightarrow> string \<Rightarrow> send_outcome) \<Rightarrow> KernelSession \<Rightarrow> data_message \<Rightarrow>
     KernelSession \<times> kernel_action list \<times> js_exception option" where
  "on_data send session message =
     (case webSocket session of
        Some ws \<Rightarrow>
          (case message of
             BufferMessage b \<Rightarrow>
               send_and_log send session ws ''Send binary data of length %d in session %d.'' b
           | DataMessage channel d \<Rightarrow>
               send_and_log send session ws
                 (''Send data in session %d'' @ [CHR 0x0A] @ ''%s'') d
           | NoData \<Rightarrow> (session, [], Some TypeError))
      | None \<Rightarrow>
          (session, [KLog LogError ''Unable to send message; WebSocket is not open''], None))"

text \<open>The \<open>disconnect\<close> handler, and the handlers of the upstream socket's events.\<close>

definition on_disconnect :: "KernelSession \<Rightarrow> KernelSession \<times> kernel_action list" where
  "on_disconnect session =
     (case closeWebSocket session of
        (session', acts) \<Rightarrow>
          (session', KLog LogDebug ''Socket disconnected for session %d reason: %s'' # acts))"

definition ws_on_open :: "KernelSession \<Rightarrow> nat \<Rightarrow> KernelSession \<times> kernel_action list" where
  "ws_on_open session ws = (session\<lparr>webSocket := Some ws\<rparr>, [EmitOpen (session_url session)])"

definition ws_on_close :: "KernelSession \<Rightarrow> KernelSession \<times> kernel_action list" where
  "ws_on_close session =
     (session\<lparr>webSocket := None\<rparr>,
      [KLog LogDebug ''WebSocket [%d] closed'', EmitClose (session_url session)])"

text \<open>
  The events of one session, handled in arrival order: the client's messages and its
  disconnect, and the \<open>open\<close> and \<open>close\<close> events of an upstream socket.
\<close>

datatype kernel_event =
    Start session_message
  | Stop session_message
  | Data data_message
  | ClientDisconnect
  | WsOpened nat
  | WsClosed

fun kernel_step ::
  "AppSettings \<Rightarrow> (string \<Rightarrow> nat \<Rightarrow> KernelSession \<Rightarrow> js_exception + nat) \<Rightarrow>
     (nat \<Rightarrow> string \<Rightarrow> send_outcome) \<Rightarrow> KernelSession \<Rightarrow> kernel_event \<Rightarrow>
     KernelSession \<times> kernel_action list \<times> js_exception option" where
  "kernel_step appSettings create send session (Start m) = on_start appSettings create session m"
| "kernel_step appSettings create send session (Stop m) = on_stop session m"
| "kernel_step appSettings create send session (Data m) = on_data send session m"
| "kernel_step appSettings create send session ClientDisconnect =
     (case on_disconnect session of (session', acts) \<Rightarrow> (session', acts, None))"
| "kernel_step appSettings create send session (WsOpened ws) =
     (case ws_on_open session ws of (session', acts) \<Rightarrow> (session', acts, None))"
| "kernel_step appSettings create send session WsClosed =
     (case ws_on_close session of (session', acts) \<Rightarrow> (session', acts, None))"

text \<open>The session after a sequence of events.\<close>

definition kernel_run ::
  "AppSettings \<Rightarrow> (string \<Rightarrow> nat \<Rightarrow> KernelSession \<Rightarrow> js_exception + nat) \<Rightarrow>
     (nat \<Rightarrow> string \<Rightarrow> send_outcome) \<Rightarrow> KernelSession \<Rightarrow> kernel_event list \<Rightarrow> KernelSession" where
  "kernel_run appSettings create send session evs =
     foldl (\<lambda>s e. fst (kernel_step appSettings create send s e)) session evs"

section \<open>Concrete inputs\<close>

text \<open>A backend that has become ready: the value of \<open>jupyterServer\<close> after the probe.\<close>

definition ready_server :: JupyterServer where
  "ready_server = \<lparr>port = 8888, childProcess = 4711, proxy = (''localhost'', 8888)\<rparr>"

text \<open>Settings whose launch arguments bind the backend to an address of their own.\<close>

definition some_settings :: AppSettings where
  "some_settings = \<lparr>nextJupyterPort = 8888, jupyterArgs = [''--ip=\"0.0.0.0\"''],
     kernelManagerProxyPort = 0, kernelManagerProxyHost = []\<rparr>"

section \<open>Properties of the reverse proxy's pattern\<close>

lemma not_isDigit_slash: "\<not> isDigit CHR ''/''"
  by (simp add: isDigit_def)

lemma match_here_Nil: "match_here [] = None"
  by (simp add: match_here_def)

lemma match_here_segment:
  assumes "ds \<noteq> []" and "list_all isDigit ds"
  shows "match_here (''/_proxy/'' @ ds @ ''/'' @ rest) = Some (ds, ''/'', rest)"
proof -
  have all: "\<And>x. x \<in> set ds \<Longrightarrow> isDigit x"
    using assms(2) by (simp add: list_all_iff)
  have tw: "takeWhile isDigit (ds @ CHR ''/'' # rest) = ds"
    using all by (simp add: not_isDigit_slash)
  have dw: "dropWhile isDigit (ds @ CHR ''/'' # rest) = CHR ''/'' # rest"
    using all by (simp add: not_isDigit_slash)
  show ?thesis
    using assms(1) by (simp add: match_here_def tw dw)
qed

lemma regex_exec_at_start:
  "match_here s = Some (ds, sep, post) \<Longrightarrow> regex_exec s = Some ([], ds, sep, post)"
  by (cases s) (simp_all add: match_here_Nil)

lemma regex_exec_segment:
  assumes "ds \<noteq> []" and "list_all isDigit ds"
  shows "regex_exec (''/_proxy/'' @ ds @ ''/'' @ rest) = Some ([], ds, ''/'', rest)"
  by (rule regex_exec_at_start) (rule match_here_segment [OF assms])





text \<open>Neither the terminal bridge nor socket.io claims a path that starts with \<open>/_proxy/\<close>.\<close>

lemma not_tty_proxied:
  "\<not> list_ex (\<lambda>handler. isPathProxied handler (''/_proxy/'' @ rest)) (run_socketIoHandlers terminal)"
  by (simp add: run_socketIoHandlers_def isPathProxied_def)

lemma not_socketio_proxy: "\<not> isSocketIoPath (''/_proxy/'' @ rest)"
  by (simp add: isSocketIoPath_def)

section \<open>The router and the reverse proxy\<close>






text \<open>
  C1, as the code has it. A request that no registered bridge claims, that is not under
  \<open>/socket.io/\<close> and that carries no port the reverse proxy may use reaches \<open>handleRequest\<close>
  of server.ts. That handler passes it to the supervisor only when the path starts with
  \<open>/api\<close>, \<open>/nbextensions\<close>, \<open>/files\<close> or \<open>/static\<close>; the supervisor forwards it to its proxy
  when the backend is ready and answers 500 otherwise. Every other path is answered 404.
\<close>

theorem default_dispatch:
  assumes "\<not> list_ex (\<lambda>handler. isPathProxied handler (pathname req)) socketIoHandlers"
    and "\<not> isSocketIoPath (pathname req)"
    and "\<not> usable_port (getRequestPort (pathname req)) (localPort req)"
  shows "uncheckedRequestHandler socketIoHandlers js req =
           (if prefix ''/api'' (pathname req) \<or> prefix ''/nbextensions'' (pathname req) \<or>
               prefix ''/files'' (pathname req) \<or> prefix ''/static'' (pathname req)
            then (case js of Some server \<Rightarrow> JupyterProxyWeb (proxy server)
                           | None \<Rightarrow> Responded 500 [])
            else Responded 404 [])"
  using assms
  by (simp add: uncheckedRequestHandler_def handleRequest_def jupyter_handleRequest_def
      split: option.split)

lemma getRequestPort_api: "getRequestPort ''/api/contents'' = Exact 0"
  by (simp add: getRequestPort_def match_here_def)

text \<open>The theorem at \<open>/api/contents\<close> with a ready backend: forwarded to the backend's proxy.\<close>

theorem default_dispatch_witness:
  "uncheckedRequestHandler (run_socketIoHandlers True) (Some ready_server)
     \<lparr>url = ''/api/contents'', pathname = ''/api/contents'', localPort = 8081\<rparr>
   = JupyterProxyWeb (''localhost'', 8888)"
  using default_dispatch [of "\<lparr>url = ''/api/contents'', pathname = ''/api/contents'', localPort = 8081\<rparr>"
      "run_socketIoHandlers True" "Some ready_server"]
  by (simp add: run_socketIoHandlers_def isPathProxied_def isSocketIoPath_def getRequestPort_api
      ready_server_def)

lemma getRequestPort_foo: "getRequestPort ''/foo'' = Exact 0"
  by (simp add: getRequestPort_def match_here_def)

text \<open>
  C1 as the spec states it fails: \<open>/foo\<close> is claimed by no bridge, is not under
  \<open>/socket.io/\<close> and names no port, and with a ready backend the router answers 404.
\<close>

theorem default_dispatch_counterexample:
  "\<not> list_ex (\<lambda>handler. isPathProxied handler ''/foo'') (run_socketIoHandlers True) \<and>
   \<not> isSocketIoPath ''/foo'' \<and>
   \<not> usable_port (getRequestPort ''/foo'') 8081 \<and>
   uncheckedRequestHandler (run_socketIoHandlers True) (Some ready_server)
     \<lparr>url = ''/foo'', pathname = ''/foo'', localPort = 8081\<rparr>
   = Responded 404 []"
  by (simp add: uncheckedRequestHandler_def run_socketIoHandlers_def isPathProxied_def
      isSocketIoPath_def getRequestPort_foo handleRequest_def)

text \<open>
  C3, as the code has it. When the port \<open>getRequestPort\<close> extracts from the path is the port
  the server listens on, the router never calls the reverse proxy. A path that a registered
  bridge or the \<open>/socket.io/\<close> prefix claims is left to socket.io, as for any other request;
  every other such request is passed to \<open>handleRequest\<close> of server.ts, the default handler.
\<close>

theorem self_loop_guard:
  assumes "getRequestPort (pathname req) = Exact (localPort req)"
  shows "(\<forall>p u. uncheckedRequestHandler socketIoHandlers js req \<noteq> ProxyWeb p u) \<and>
         (if list_ex (\<lambda>handler. isPathProxied handler (pathname req)) socketIoHandlers \<or>
             isSocketIoPath (pathname req)
          then uncheckedRequestHandler socketIoHandlers js req = HandledBySocketIo
          else uncheckedRequestHandler socketIoHandlers js req = handleRequest js (pathname req))"
proof -
  have guard: "\<not> usable_port (getRequestPort (pathname req)) (localPort req)"
    using assms by simp
  have no_proxy: "handleRequest js (pathname req) \<noteq> ProxyWeb p u" for p u
    by (simp add: handleRequest_def jupyter_handleRequest_def split: option.split)
  show ?thesis
    using guard no_proxy by (simp add: uncheckedRequestHandler_def Let_def)
qed

lemma getRequestPort_8081: "getRequestPort ''/_proxy/8081/api/x'' = Exact 8081"
  by (simp add: getRequestPort_def match_here_def isDigit_def js_Number_def digits_val_def
      digit_val_def)

text \<open>
  The theorem at \<open>/_proxy/8081/api/x\<close> on a server that listens on 8081: the default
  handler sees the whole path, which starts with none of its four prefixes, and answers 404.
\<close>

theorem self_loop_guard_witness:
  "uncheckedRequestHandler (run_socketIoHandlers True) (Some ready_server)
     \<lparr>url = ''/_proxy/8081/api/x'', pathname = ''/_proxy/8081/api/x'', localPort = 8081\<rparr>
   = Responded 404 []"
  using self_loop_guard [of "\<lparr>url = ''/_proxy/8081/api/x'', pathname = ''/_proxy/8081/api/x'', localPort = 8081\<rparr>"
      "run_socketIoHandlers True" "Some ready_server"]
  by (simp add: getRequestPort_8081 run_socketIoHandlers_def isPathProxied_def isSocketIoPath_def
      handleRequest_def)

lemma getRequestPort_socketio: "getRequestPort ''/socket.io/_proxy/8081/x'' = Exact 8081"
  by (simp add: getRequestPort_def match_here_def isDigit_def js_Number_def digits_val_def
      digit_val_def)

text \<open>
  C3 as the spec states it fails. The path \<open>/socket.io/_proxy/8081/x\<close> contains the segment
  \<open>/_proxy/8081\<close>; on a server that listens on 8081 the router returns without calling the
  default handler, which would have answered. And \<open>/_proxy/8081/foo\<close> does reach the default
  handler, which answers 404 although the backend is ready: it is not passed to the supervisor.
\<close>

theorem self_loop_guard_counterexample:
  "getRequestPort ''/socket.io/_proxy/8081/x'' = Exact 8081 \<and>
   uncheckedRequestHandler (run_socketIoHandlers True) (Some ready_server)
     \<lparr>url = ''/socket.io/_proxy/8081/x'', pathname = ''/socket.io/_proxy/8081/x'', localPort = 8081\<rparr>
   = HandledBySocketIo \<and>
   handleRequest (Some ready_server) ''/socket.io/_proxy/8081/x'' \<noteq> HandledBySocketIo \<and>
   uncheckedRequestHandler (run_socketIoHandlers True) (Some ready_server)
     \<lparr>url = ''/_proxy/8081/foo'', pathname = ''/_proxy/8081/foo'', localPort = 8081\<rparr>
   = Responded 404 []"
  by (simp add: getRequestPort_socketio uncheckedRequestHandler_def run_socketIoHandlers_def
      isPathProxied_def isSocketIoPath_def handleRequest_def getRequestPort_def match_here_def
      isDigit_def js_Number_def digits_val_def digit_val_def)

lemma regex_exec_zero: "regex_exec (''/_proxy/0/'' @ rest) = Some ([], ''0'', ''/'', rest)"
  using regex_exec_segment [of "''0''" rest] by (simp add: isDigit_def)

lemma getRequestPort_zero: "getRequestPort (''/_proxy/0/'' @ rest) = Exact 0"
  using regex_exec_zero [of rest]
  by (simp add: getRequestPort_def js_Number_def digits_val_def digit_val_def)

text \<open>
  C10. For a path \<open>/_proxy/0/...\<close>, \<open>getRequestPort\<close> returns 0, the value it also returns
  for any path \<open>other\<close> in which the pattern does not match. Whatever bridges are registered,
  the router does not call the reverse proxy; on the server as \<open>run\<close> sets it up (with or
  without the terminal bridge) the request is passed to \<open>handleRequest\<close> of server.ts, the
  default handler.
\<close>

theorem port_zero_falls_through:
  assumes "pathname req = ''/_proxy/0/'' @ rest"
  shows "getRequestPort (pathname req) = Exact 0 \<and>
         (regex_exec other = None \<longrightarrow> getRequestPort other = getRequestPort (pathname req)) \<and>
         (\<forall>p u. uncheckedRequestHandler socketIoHandlers js req \<noteq> ProxyWeb p u) \<and>
         uncheckedRequestHandler (run_socketIoHandlers terminal) js req
           = handleRequest js (pathname req)"
proof -
  have z: "getRequestPort (pathname req) = Exact 0"
    using assms getRequestPort_zero [of rest] by simp
  have a: "regex_exec other = None \<longrightarrow> getRequestPort other = getRequestPort (pathname req)"
    using z by (simp add: getRequestPort_def)
  have n: "\<forall>p u. uncheckedRequestHandler socketIoHandlers js req \<noteq> ProxyWeb p u"
    using z by (simp add: uncheckedRequestHandler_def Let_def handleRequest_def
        jupyter_handleRequest_def split: option.split)
  have h: "\<not> list_ex (\<lambda>handler. isPathProxied handler (pathname req)) (run_socketIoHandlers terminal)"
    using not_tty_proxied [of "''0/'' @ rest" terminal] assms by simp
  have s: "\<not> isSocketIoPath (pathname req)"
    using not_socketio_proxy [of "''0/'' @ rest"] assms by simp
  have d: "uncheckedRequestHandler (run_socketIoHandlers terminal) js req
             = handleRequest js (pathname req)"
    using z h s by (simp add: uncheckedRequestHandler_def)
  from z a n d show ?thesis by blast
qed

text \<open>
  The theorem at \<open>/_proxy/0/api\<close>: port 0, as for \<open>/api\<close>, and the default handler answers
  404.
\<close>

theorem port_zero_falls_through_witness:
  "getRequestPort ''/_proxy/0/api'' = Exact 0 \<and> getRequestPort ''/api'' = Exact 0 \<and>
   uncheckedRequestHandler (run_socketIoHandlers True) (Some ready_server)
     \<lparr>url = ''/_proxy/0/api'', pathname = ''/_proxy/0/api'', localPort = 8081\<rparr>
   = Responded 404 []"
  using port_zero_falls_through [of "\<lparr>url = ''/_proxy/0/api'', pathname = ''/_proxy/0/api'', localPort = 8081\<rparr>"
      "''api''" "''/api''" "run_socketIoHandlers True" "Some ready_server" True]
  by (simp add: match_here_def handleRequest_def)

section \<open>The supervisor\<close>






text \<open>
  With a backend registered, \<open>close\<close> sends it \<open>SIGHUP\<close>, swallows a failure of the
  signal and leaves \<open>jupyterServer\<close> absent.
\<close>

lemma close_registered:
  "close kill (Some server) = Inr (None, [(childProcess server, ''SIGHUP'')])"
  by (simp add: close_def Let_def split: option.split)

text \<open>
  C6 does not hold of the code when no backend is registered: \<open>close\<close> reads
  \<open>jupyterServer.childProcess\<close> before its \<open>try\<close> block, so with \<open>jupyterServer\<close> absent a
  \<open>TypeError\<close> leaves \<open>close\<close>, whatever \<open>kill\<close> would do.
\<close>

theorem close_absent_throws: "close kill None = Inl TypeError"
  by (simp add: close_def)

section \<open>The relay of the backend's output\<close>

lemma split_on_not_Nil: "split_on sep s \<noteq> []"
  by (induction s) (auto split: list.split)

lemma split_on_none: "sep \<notin> set s \<Longrightarrow> split_on sep s = [s]"
  by (induction s) auto

lemma split_on_first:
  "sep \<notin> set f \<Longrightarrow> split_on sep (f @ sep # rest) = f # split_on sep rest"
  by (induction f) auto

text \<open>\<open>split\<close> yields one piece more than there are separators.\<close>

lemma length_split_on: "length (split_on sep s) = Suc (length (filter (\<lambda>c. c = sep) s))"
  by (induction s) (auto split: list.split simp add: split_on_not_Nil)

text \<open>\<open>parts.length !== 3\<close> is false exactly for the lines with two separators or more.\<close>

lemma split_limit_three_iff:
  "length (split_limit sep 3 s) = 3 \<longleftrightarrow> 2 \<le> length (filter (\<lambda>c. c = sep) s)"
  by (auto simp add: split_limit_def length_split_on)

lemma split_on_last_field:
  assumes "sep \<notin> set message" and "tail = [] \<or> hd tail = sep"
  shows "\<exists>others. split_on sep (message @ tail) = message # others"
proof (cases tail)
  case Nil
  then show ?thesis using assms(1) by (simp add: split_on_none)
next
  case (Cons c t)
  then have "tail = sep # t" using assms(2) by simp
  then show ?thesis using assms(1) by (simp add: split_on_first)
qed

lemma three_fields:
  assumes "sep \<notin> set field" "sep \<notin> set level" "sep \<notin> set message"
    and "tail = [] \<or> hd tail = sep"
  shows "split_limit sep 3 (field @ sep # level @ sep # message @ tail) = [field, level, message]"
proof -
  obtain others where "split_on sep (message @ tail) = message # others"
    using split_on_last_field [OF assms(3,4)] by blast
  then show ?thesis
    using assms(1,2) by (simp add: split_limit_def split_on_first)
qed

text \<open>The handler of a chunk treats each of its lines on its own, in order.\<close>

lemma pipeOutput_lines:
  "CHR 0x0A \<notin> set line \<Longrightarrow>
   pipeOutput line = pipe_line line \<and>
   pipeOutput (line @ [CHR 0x0A] @ others) = pipe_line line @ pipeOutput others"
  by (simp add: pipeOutput_def split_on_none split_on_first)

text \<open>
  C9, as the code has it. Each line of a chunk is treated on its own. A blank line is
  skipped. A line that is not blank and has two separators \<open>|\<close> or more, that is a line
  \<open>field|level|message\<close> followed by nothing or by a third separator and more text, is
  logged once, at the level mapped from \<open>level\<close> (CRITICAL and ERROR to error, WARNING to
  warn, INFO to info, anything else to debug) and with \<open>message\<close> alone: what follows a third
  separator is dropped. A line that is not blank and has fewer than two separators is
  logged as it is, as a warning.
\<close>

theorem pipe_line_logging:
  "(CHR 0x0A \<notin> set line \<longrightarrow>
      pipeOutput line = pipe_line line \<and>
      pipeOutput (line @ [CHR 0x0A] @ others) = pipe_line line @ pipeOutput others) \<and>
   (trim line = [] \<longrightarrow> pipe_line line = []) \<and>
   (trim line \<noteq> [] \<and>
    CHR ''|'' \<notin> set field \<and> CHR ''|'' \<notin> set level \<and> CHR ''|'' \<notin> set message \<and>
    (tail = [] \<or> hd tail = CHR ''|'') \<and>
    line = field @ ''|'' @ level @ ''|'' @ message @ tail \<longrightarrow>
      pipe_line line =
        [(if level = ''CRITICAL'' \<or> level = ''ERROR'' then LogError
          else if level = ''WARNING'' then LogWarn
          else if level = ''INFO'' then LogInfo
          else LogDebug, message)]) \<and>
   (trim line \<noteq> [] \<and> length (filter (\<lambda>c. c = CHR ''|'') line) < 2 \<longrightarrow>
      pipe_line line = [(LogWarn, line)])"
proof -
  have l: "CHR 0x0A \<notin> set line \<longrightarrow>
      pipeOutput line = pipe_line line \<and>
      pipeOutput (line @ [CHR 0x0A] @ others) = pipe_line line @ pipeOutput others"
    using pipeOutput_lines [of line others] by blast
  have z: "trim line = [] \<longrightarrow> pipe_line line = []"
    by (simp add: pipe_line_def)
  have a: "pipe_line line =
              [(if level = ''CRITICAL'' \<or> level = ''ERROR'' then LogError
                else if level = ''WARNING'' then LogWarn
                else if level = ''INFO'' then LogInfo
                else LogDebug, message)]"
    if nb: "trim line \<noteq> []"
      and nf: "CHR ''|'' \<notin> set field" and nl: "CHR ''|'' \<notin> set level"
      and nm: "CHR ''|'' \<notin> set message" and tl: "tail = [] \<or> hd tail = CHR ''|''"
      and eq: "line = field @ ''|'' @ level @ ''|'' @ message @ tail"
  proof -
    have "split_limit CHR ''|'' 3 line = [field, level, message]"
      using three_fields [OF nf nl nm tl] eq by simp
    then show ?thesis using nb by (simp add: pipe_line_def)
  qed
  have b: "pipe_line line = [(LogWarn, line)]"
    if nb: "trim line \<noteq> []" and few: "length (filter (\<lambda>c. c = CHR ''|'') line) < 2"
  proof -
    have "length (split_limit CHR ''|'' 3 line) \<noteq> 3"
      using few by (simp add: split_limit_three_iff)
    then show ?thesis using nb by (simp add: pipe_line_def)
  qed
  from l z a b show ?thesis by blast
qed

lemma trim_record: "trim ''[I]|ERROR|kernel died'' \<noteq> []"
  by (simp add: trim_def isWhiteSpace_def)

lemma trim_debug: "trim ''[D]|DEBUG|a|b'' \<noteq> []"
  by (simp add: trim_def isWhiteSpace_def)

lemma trim_trace: "trim ''  File x.py, line 3'' \<noteq> []"
  by (simp add: trim_def isWhiteSpace_def)

text \<open>
  The theorem at a record of level ERROR, at a record of level DEBUG with a separator in
  its message, and at a line of a stack trace.
\<close>

theorem pipe_line_logging_witness:
  "pipe_line ''[I]|ERROR|kernel died'' = [(LogError, ''kernel died'')] \<and>
   pipe_line ''[D]|DEBUG|a|b'' = [(LogDebug, ''a'')] \<and>
   pipe_line ''  File x.py, line 3'' = [(LogWarn, ''  File x.py, line 3'')]"
  using pipe_line_logging [of "''[I]|ERROR|kernel died''" "[]" "''[I]''" "''ERROR''" "''kernel died''" "[]"]
    pipe_line_logging [of "''[D]|DEBUG|a|b''" "[]" "''[D]''" "''DEBUG''" "''a''" "''|b''"]
    pipe_line_logging [of "''  File x.py, line 3''" "[]" "[]" "[]" "[]" "[]"]
  by (simp add: trim_record trim_trace trim_debug)

text \<open>
  C9 as the spec states it fails: \<open>a|INFO|b|c\<close> has four fields, not exactly three, and it
  is not logged as it is as a warning; it is logged at level info with the message \<open>b\<close>.
\<close>

theorem pipe_line_extra_field_counterexample:
  "split_on CHR ''|'' ''a|INFO|b|c'' = [''a'', ''INFO'', ''b'', ''c''] \<and>
   pipe_line ''a|INFO|b|c'' = [(LogInfo, ''b'')] \<and>
   pipe_line ''a|INFO|b|c'' \<noteq> [(LogWarn, ''a|INFO|b|c'')]"
  by (simp add: pipe_line_def split_limit_def trim_def isWhiteSpace_def)

section \<open>The terminal session\<close>

text \<open>
  C7 does not hold of the code: when \<open>JSON.parse\<close> throws on the payload of a client
  \<open>data\<close> event, the handler has written one debug line, the \<open>SyntaxError\<close> leaves the
  handler, and the session is neither disconnected nor is an error logged.
\<close>

theorem malformed_json_throws:
  "socket_on_data event_data JsonThrows = ([PtyLogDebug event_data], Some SyntaxError)"
  by (simp add: socket_on_data_def)

lemma pty_onData_count: "unackedCount (fst (pty_onData s d)) = unackedCount s + 1"
  by (simp add: pty_onData_def)

lemma pty_onData_pause:
  "PtyPause \<in> set (snd (pty_onData s d)) \<longleftrightarrow> unackedCount s + 1 > 20"
  by (simp add: pty_onData_def UNACKED_HIGH_WATER_def)

lemma pty_ack_count: "unackedCount (fst (pty_ack s)) = max 0 (unackedCount s - 1)"
  by (simp add: pty_ack_def)

lemma pty_ack_resume:
  "PtyResume \<in> set (snd (pty_ack s)) \<longleftrightarrow> unackedCount (fst (pty_ack s)) < 2"
  by (simp add: pty_ack_def UNACKED_LOW_WATER_def)

lemma pty_step_nonneg: "0 \<le> unackedCount s \<Longrightarrow> 0 \<le> unackedCount (fst (pty_step s e))"
  by (cases e) (simp_all add: pty_onData_count pty_ack_count)

lemma pty_run_Cons:
  "pty_run s (e # es) =
     (fst (pty_run (fst (pty_step s e)) es),
      snd (pty_step s e) @ snd (pty_run (fst (pty_step s e)) es))"
  by (simp add: split_beta)

text \<open>The count stays non-negative along any sequence of chunks and acknowledgments.\<close>

lemma pty_run_nonneg: "0 \<le> unackedCount s \<Longrightarrow> 0 \<le> unackedCount (fst (pty_run s es))"
proof (induction es arbitrary: s)
  case Nil
  then show ?case by simp
next
  case (Cons e es)
  have "0 \<le> unackedCount (fst (pty_step s e))"
    using Cons.prems by (rule pty_step_nonneg)
  then have "0 \<le> unackedCount (fst (pty_run (fst (pty_step s e)) es))"
    by (rule Cons.IH)
  then show ?case by (simp only: pty_run_Cons fst_conv)
qed

text \<open>Chunks without acknowledgments: a pause is issued once the count has passed 20.\<close>

lemma pty_chunks_pause:
  "PtyPause \<in> set (snd (pty_run s (map Chunk ds))) \<longleftrightarrow>
     ds \<noteq> [] \<and> unackedCount s + int (length ds) > 20"
proof (induction ds arbitrary: s)
  case Nil
  then show ?case by simp
next
  case (Cons d ds)
  have step: "pty_step s (Chunk d) = pty_onData s d" by simp
  have "PtyPause \<in> set (snd (pty_run s (map Chunk (d # ds)))) \<longleftrightarrow>
          PtyPause \<in> set (snd (pty_onData s d)) \<or>
          PtyPause \<in> set (snd (pty_run (fst (pty_onData s d)) (map Chunk ds)))"
    by (simp only: list.map pty_run_Cons step snd_conv set_append Un_iff)
  also have "\<dots> \<longleftrightarrow> unackedCount s + 1 > 20 \<or>
          (ds \<noteq> [] \<and> unackedCount s + 1 + int (length ds) > 20)"
    by (simp only: pty_onData_pause Cons.IH pty_onData_count)
  also have "\<dots> \<longleftrightarrow> unackedCount s + int (length (d # ds)) > 20"
    by (cases ds) auto
  finally show ?case by simp
qed

text \<open>
  C5. An output chunk increments \<open>unackedCount\<close>, and the producer is paused on that chunk
  exactly when the new count exceeds 20; in a fresh session that receives chunks and no
  acknowledgment, a pause is issued exactly when 21 chunks or more have arrived. An
  acknowledgment sets the count to the larger of 0 and the count less one, so it decrements a
  positive count; along any sequence of chunks and acknowledgments of a fresh session the
  count is never negative. The producer is resumed on an acknowledgment exactly when the new
  count is below 2.
\<close>

theorem pty_backpressure:
  "unackedCount (fst (pty_onData s d)) = unackedCount s + 1 \<and>
   (PtyPause \<in> set (snd (pty_onData s d)) \<longleftrightarrow> unackedCount (fst (pty_onData s d)) > 20) \<and>
   (PtyPause \<in> set (snd (pty_run (new_PtySession k) (map Chunk ds))) \<longleftrightarrow> 21 \<le> length ds) \<and>
   unackedCount (fst (pty_ack s)) = max 0 (unackedCount s - 1) \<and>
   (0 < unackedCount s \<longrightarrow> unackedCount (fst (pty_ack s)) = unackedCount s - 1) \<and>
   0 \<le> unackedCount (fst (pty_run (new_PtySession k) es)) \<and>
   (PtyResume \<in> set (snd (pty_ack s)) \<longleftrightarrow> unackedCount (fst (pty_ack s)) < 2)"
proof -
  have a: "unackedCount (fst (pty_onData s d)) = unackedCount s + 1"
    by (rule pty_onData_count)
  have b: "PtyPause \<in> set (snd (pty_onData s d)) \<longleftrightarrow> unackedCount (fst (pty_onData s d)) > 20"
    by (simp only: pty_onData_pause pty_onData_count)
  have c: "PtyPause \<in> set (snd (pty_run (new_PtySession k) (map Chunk ds))) \<longleftrightarrow> 21 \<le> length ds"
    unfolding pty_chunks_pause by (cases ds) (auto simp add: new_PtySession_def)
  have d: "unackedCount (fst (pty_ack s)) = max 0 (unackedCount s - 1)"
    by (rule pty_ack_count)
  have e: "0 < unackedCount s \<longrightarrow> unackedCount (fst (pty_ack s)) = unackedCount s - 1"
    by (simp add: pty_ack_count)
  have f: "0 \<le> unackedCount (fst (pty_run (new_PtySession k) es))"
    by (rule pty_run_nonneg) (simp add: new_PtySession_def)
  have g: "PtyResume \<in> set (snd (pty_ack s)) \<longleftrightarrow> unackedCount (fst (pty_ack s)) < 2"
    by (rule pty_ack_resume)
  from a b c d e f g show ?thesis by blast
qed

text \<open>
  The theorem at a session with two chunks outstanding, where an acknowledgment leaves one
  and resumes the producer; at a fresh session that receives two acknowledgments it never
  asked for; and at 21 and at 20 chunks without acknowledgment.
\<close>

theorem pty_backpressure_witness:
  "unackedCount (fst (pty_ack \<lparr>pty_id = 0, unackedCount = 2\<rparr>)) = 1 \<and>
   snd (pty_ack \<lparr>pty_id = 0, unackedCount = 2\<rparr>) = [PtyResume] \<and>
   pty_run (new_PtySession 0) [Ack, Ack] = (new_PtySession 0, [PtyResume, PtyResume]) \<and>
   PtyPause \<in> set (snd (pty_run (new_PtySession 0) (map Chunk (replicate 21 ''x'')))) \<and>
   PtyPause \<notin> set (snd (pty_run (new_PtySession 0) (map Chunk (replicate 20 ''x''))))"
  using pty_backpressure [of "\<lparr>pty_id = 0, unackedCount = 2\<rparr>" "''x''" 0 "replicate 21 ''x''" "[Ack, Ack]"]
    pty_backpressure [of "\<lparr>pty_id = 0, unackedCount = 2\<rparr>" "''x''" 0 "replicate 20 ''x''" "[Ack, Ack]"]
  by (simp add: pty_ack_def new_PtySession_def UNACKED_LOW_WATER_def)

section \<open>The kernel session\<close>

lemma on_stop_clears: "webSocket (fst (on_stop session (SessionMessage u))) = None"
  by (simp add: on_stop_def closeWebSocket_def split: option.split)

lemma on_data_absent:
  "webSocket session = None \<Longrightarrow>
   on_data send session message =
     (session, [KLog LogError ''Unable to send message; WebSocket is not open''], None)"
  by (simp add: on_data_def)

text \<open>The \<open>data\<close> handler never changes the session.\<close>

lemma on_data_session: "fst (on_data send session message) = session"
  by (simp add: on_data_def send_and_log_def
      split: option.split data_message.split send_outcome.split)

lemma kernel_run_data:
  "kernel_run appSettings create send session (map Data ms) = session"
  by (induction ms) (simp_all add: kernel_run_def on_data_session)

lemma kernel_run_stopped:
  "webSocket (kernel_run appSettings create send session
     (evs @ [Stop (SessionMessage u)] @ map Data ms)) = None"
proof -
  let ?s = "kernel_run appSettings create send session evs"
  have "kernel_run appSettings create send session (evs @ [Stop (SessionMessage u)] @ map Data ms)
          = kernel_run appSettings create send (fst (on_stop ?s (SessionMessage u))) (map Data ms)"
    by (simp add: kernel_run_def)
  then show ?thesis by (simp add: kernel_run_data on_stop_clears)
qed

text \<open>
  A \<open>stop\<close> event without payload closes nothing: the \<open>TypeError\<close> leaves the handler and
  the session keeps its socket.
\<close>

lemma on_stop_without_payload: "on_stop session NoPayload = (session, [], Some TypeError)"
  by (simp add: on_stop_def)

text \<open>
  C8. A client \<open>data\<close> message that arrives while the session holds no upstream socket,
  with or without a payload, changes nothing, logs one error and does nothing else: nothing
  is sent or emitted, and no exception leaves the handler. The session holds no socket
  after a \<open>start\<close> followed by a \<open>stop\<close> that carries its payload, whether or not \<open>start\<close>
  could create the socket; more generally after any events that end with such a \<open>stop\<close>
  and any \<open>data\<close> messages since.
\<close>

theorem data_without_socket_dropped:
  "(webSocket session = None \<longrightarrow>
      on_data send session message =
        (session, [KLog LogError ''Unable to send message; WebSocket is not open''], None)) \<and>
   on_data send
     (fst (on_stop (fst (on_start appSettings create session start_message)) (SessionMessage u)))
     message =
     (fst (on_stop (fst (on_start appSettings create session start_message)) (SessionMessage u)),
      [KLog LogError ''Unable to send message; WebSocket is not open''], None) \<and>
   on_data send
     (kernel_run appSettings create send session (evs @ [Stop (SessionMessage u)] @ map Data ms))
     message =
     (kernel_run appSettings create send session (evs @ [Stop (SessionMessage u)] @ map Data ms),
      [KLog LogError ''Unable to send message; WebSocket is not open''], None)"
proof -
  have a: "webSocket session = None \<longrightarrow>
      on_data send session message =
        (session, [KLog LogError ''Unable to send message; WebSocket is not open''], None)"
    using on_data_absent [of session send message] by blast
  have b: "on_data send
     (fst (on_stop (fst (on_start appSettings create session start_message)) (SessionMessage u)))
     message =
     (fst (on_stop (fst (on_start appSettings create session start_message)) (SessionMessage u)),
      [KLog LogError ''Unable to send message; WebSocket is not open''], None)"
    by (rule on_data_absent) (rule on_stop_clears)
  have c: "on_data send
     (kernel_run appSettings create send session (evs @ [Stop (SessionMessage u)] @ map Data ms))
     message =
     (kernel_run appSettings create send session (evs @ [Stop (SessionMessage u)] @ map Data ms),
      [KLog LogError ''Unable to send message; WebSocket is not open''], None)"
    by (rule on_data_absent) (rule kernel_run_stopped)
  from a b c show ?thesis by blast
qed

text \<open>
  The theorem at \<open>start {url: "ws://x"}\<close>, \<open>stop {url: "ws://x"}\<close>, \<open>data\<close>, in an
  environment whose \<open>send\<close> would throw: the message is dropped. Without the \<open>stop\<close> the same
  message is sent, and the exception of \<open>send\<close> leaves the handler.
\<close>

theorem data_without_socket_dropped_witness:
  "on_data (\<lambda>ws payload. SendThrows)
     (fst (on_stop (fst (on_start some_settings (\<lambda>host p s. Inr 7) (new_KernelSession 1)
                           (SessionMessage ''ws://x'')))
                   (SessionMessage ''ws://x'')))
     (DataMessage ''shell'' ''payload'')
   = (\<lparr>session_id = 1, session_url = ''ws://x'', webSocket = None\<rparr>,
      [KLog LogError ''Unable to send message; WebSocket is not open''], None) \<and>
   on_data (\<lambda>ws payload. SendThrows)
     (fst (on_start some_settings (\<lambda>host p s. Inr 7) (new_KernelSession 1)
             (SessionMessage ''ws://x'')))
     (DataMessage ''shell'' ''payload'')
   = (\<lparr>session_id = 1, session_url = ''ws://x'', webSocket = Some 7\<rparr>,
      [KLog LogDebug (''Send data in session %d'' @ [CHR 0x0A] @ ''%s''), WsSend 7 ''payload''],
      Some Error)"
  using data_without_socket_dropped [of "new_KernelSession 1" "\<lambda>ws payload. SendThrows"
      "DataMessage ''shell'' ''payload''" some_settings "\<lambda>host p s. Inr 7"
      "SessionMessage ''ws://x''" "''ws://x''" "[]" "[]"]
  by (simp add: new_KernelSession_def on_start_def on_stop_def closeWebSocket_def on_data_def
      send_and_log_def some_settings_def)

end
